theory Spec2Isabelle
  imports Main "HOL-Library.Word" "HOL-Library.Sublist" "HOL-Library.Multiset"
    "HOL-Library.Monad_Syntax"
begin

unbundle bit_operations_syntax

section \<open>encoding.cpp: UTF-8 validation and charset detection\<close>

text \<open>
  A \<open>QByteArray\<close> is a list of bytes (\<open>unsigned char\<close>, an 8-bit word). The pointer
  \<open>p\<close> of the source walks the array towards \<open>end\<close>; the model passes the bytes
  from \<open>p\<close> to \<open>end\<close>. The two \<open>unsigned int code\<close> values are computed on 32 bits
  after the integer promotion of the operands.
\<close>

type_synonym byte = "8 word"

definition code3 :: "byte \<Rightarrow> byte \<Rightarrow> byte \<Rightarrow> 32 word" where
  "code3 c p0 p1 =
     push_bit 12 (ucast (c AND 0x0F)) OR push_bit 6 (ucast (p0 AND 0x3F)) OR ucast (p1 AND 0x3F)"

definition code4 :: "byte \<Rightarrow> byte \<Rightarrow> byte \<Rightarrow> byte \<Rightarrow> 32 word" where
  "code4 c p0 p1 p2 =
     push_bit 18 (ucast (c AND 0x07)) OR push_bit 12 (ucast (p0 AND 0x3F))
       OR push_bit 6 (ucast (p1 AND 0x3F)) OR ucast (p2 AND 0x3F)"

fun validateUTF8 :: "byte list \<Rightarrow> bool" where
  "validateUTF8 [] = True"
| "validateUTF8 (c # p) =
     (if c < 0x80 then validateUTF8 p
      else if 0xC2 \<le> c \<and> c \<le> 0xDF then
        (case p of
           [] \<Rightarrow> False
         | p0 # p' \<Rightarrow>
             if p0 AND 0xC0 \<noteq> 0x80 then False
             else validateUTF8 p')
      else if 0xE0 \<le> c \<and> c \<le> 0xEF then
        (case p of
           p0 # p1 # p' \<Rightarrow>
             if p0 AND 0xC0 \<noteq> 0x80 \<or> p1 AND 0xC0 \<noteq> 0x80 then False
             else if c = 0xE0 \<and> p0 < 0xA0 then False
             else if c = 0xED \<and> p0 > 0x9F then False
             else if 0xD800 \<le> code3 c p0 p1 \<and> code3 c p0 p1 \<le> 0xDFFF then False
             else validateUTF8 p'
         | _ \<Rightarrow> False)
      else if 0xF0 \<le> c \<and> c \<le> 0xF4 then
        (case p of
           p0 # p1 # p2 # p' \<Rightarrow>
             if p0 AND 0xC0 \<noteq> 0x80 \<or> p1 AND 0xC0 \<noteq> 0x80 \<or> p2 AND 0xC0 \<noteq> 0x80 then False
             else if c = 0xF0 \<and> p0 < 0x90 then False
             else if c = 0xF4 \<and> p0 > 0x8F then False
             else if code4 c p0 p1 p2 > 0x10FFFF then False
             else validateUTF8 p'
         | _ \<Rightarrow> False)
      else False)"

definition detectCharset :: "byte list \<Rightarrow> string" where
  "detectCharset byteArray = (if validateUTF8 byteArray then ''UTF-8'' else ''ISO-8859-1'')"

subsection \<open>Well-formed UTF-8, as the standard defines it\<close>

text \<open>
  The reference notion the validator is compared with: a byte sequence is well-formed
  UTF-8 when it is the concatenation of the encodings of Unicode scalar values (code
  points up to 0x10FFFF that are not surrogates), each in its shortest form.
\<close>

definition is_scalar_value :: "nat \<Rightarrow> bool" where
  "is_scalar_value cp \<longleftrightarrow> cp \<le> 0x10FFFF \<and> \<not> (0xD800 \<le> cp \<and> cp \<le> 0xDFFF)"

definition utf8_encode :: "nat \<Rightarrow> byte list" where
  "utf8_encode cp =
     (if cp < 0x80 then [of_nat cp]
      else if cp < 0x800 then [of_nat (0xC0 + cp div 64), of_nat (0x80 + cp mod 64)]
      else if cp < 0x10000 then
        [of_nat (0xE0 + cp div 4096), of_nat (0x80 + cp div 64 mod 64), of_nat (0x80 + cp mod 64)]
      else
        [of_nat (0xF0 + cp div 262144), of_nat (0x80 + cp div 4096 mod 64),
         of_nat (0x80 + cp div 64 mod 64), of_nat (0x80 + cp mod 64)])"

definition well_formed_utf8 :: "byte list \<Rightarrow> bool" where
  "well_formed_utf8 bs \<longleftrightarrow>
     (\<exists>cps. list_all is_scalar_value cps \<and> bs = concat (map utf8_encode cps))"

section \<open>syntax.cpp: language classification and the visible-range pass\<close>

subsection \<open>Strings\<close>

text \<open>
  A \<open>QString\<close> is modelled as a \<open>string\<close>. \<open>toLower\<close> maps the letters A to Z to
  a to z and leaves every other character alone; \<open>endsWith\<close> compares
  case-sensitively, \<open>endsWith_ci\<close> is \<open>endsWith(s, Qt::CaseInsensitive)\<close>.
\<close>

definition toLower_char :: "char \<Rightarrow> char" where
  "toLower_char c =
     (let n = (of_char c :: nat) in if 65 \<le> n \<and> n \<le> 90 then char_of (n + 32) else c)"

definition toLower :: "string \<Rightarrow> string" where
  "toLower s = map toLower_char s"

definition endsWith :: "string \<Rightarrow> string \<Rightarrow> bool" where
  "endsWith s e = suffix e s"

definition endsWith_ci :: "string \<Rightarrow> string \<Rightarrow> bool" where
  "endsWith_ci s e = suffix (toLower e) (toLower s)"

definition startsWith :: "string \<Rightarrow> string \<Rightarrow> bool" where
  "startsWith s p = prefix p s"

subsection \<open>The three lookup tables\<close>

record extensionEntry =
  extension :: string
  caseSensitive :: bool
  language :: string

definition extensionLanguageMap :: "extensionEntry list" where
  "extensionLanguageMap =
    [
     \<lparr>extension = ''.cpp'', caseSensitive = True, language = ''cpp''\<rparr>,
     \<lparr>extension = ''.cxx'', caseSensitive = True, language = ''cpp''\<rparr>,
     \<lparr>extension = ''.h'', caseSensitive = True, language = ''cpp''\<rparr>,
     \<lparr>extension = ''.c'', caseSensitive = True, language = ''c''\<rparr>,
     \<lparr>extension = ''.sh'', caseSensitive = True, language = ''sh''\<rparr>,
     \<lparr>extension = ''.ebuild'', caseSensitive = True, language = ''sh''\<rparr>,
     \<lparr>extension = ''.eclass'', caseSensitive = True, language = ''sh''\<rparr>,
     \<lparr>extension = ''.zsh'', caseSensitive = True, language = ''sh''\<rparr>,
     \<lparr>extension = ''.rb'', caseSensitive = True, language = ''ruby''\<rparr>,
     \<lparr>extension = ''.lua'', caseSensitive = True, language = ''lua''\<rparr>,
     \<lparr>extension = ''.nelua'', caseSensitive = True, language = ''lua''\<rparr>,
     \<lparr>extension = ''.py'', caseSensitive = True, language = ''python''\<rparr>,
     \<lparr>extension = ''.pl'', caseSensitive = True, language = ''perl''\<rparr>,
     \<lparr>extension = ''.pro'', caseSensitive = True, language = ''qmake''\<rparr>,
     \<lparr>extension = ''.pri'', caseSensitive = True, language = ''qmake''\<rparr>,
     \<lparr>extension = ''.tr'', caseSensitive = True, language = ''troff''\<rparr>,
     \<lparr>extension = ''.t'', caseSensitive = True, language = ''troff''\<rparr>,
     \<lparr>extension = ''.roff'', caseSensitive = True, language = ''troff''\<rparr>,
     \<lparr>extension = ''.tex'', caseSensitive = True, language = ''LaTeX''\<rparr>,
     \<lparr>extension = ''.ltx'', caseSensitive = True, language = ''LaTeX''\<rparr>,
     \<lparr>extension = ''.latex'', caseSensitive = True, language = ''LaTeX''\<rparr>,
     \<lparr>extension = ''.lyx'', caseSensitive = True, language = ''LaTeX''\<rparr>,
     \<lparr>extension = ''.xml'', caseSensitive = False, language = ''xml''\<rparr>,
     \<lparr>extension = ''.svg'', caseSensitive = False, language = ''xml''\<rparr>,
     \<lparr>extension = ''.qrc'', caseSensitive = True, language = ''xml''\<rparr>,
     \<lparr>extension = ''.rdf'', caseSensitive = True, language = ''xml''\<rparr>,
     \<lparr>extension = ''.docbook'', caseSensitive = True, language = ''xml''\<rparr>,
     \<lparr>extension = ''.fnx'', caseSensitive = True, language = ''xml''\<rparr>,
     \<lparr>extension = ''.ts'', caseSensitive = True, language = ''xml''\<rparr>,
     \<lparr>extension = ''.menu'', caseSensitive = True, language = ''xml''\<rparr>,
     \<lparr>extension = ''.kml'', caseSensitive = False, language = ''xml''\<rparr>,
     \<lparr>extension = ''.xspf'', caseSensitive = False, language = ''xml''\<rparr>,
     \<lparr>extension = ''.asx'', caseSensitive = False, language = ''xml''\<rparr>,
     \<lparr>extension = ''.nfo'', caseSensitive = True, language = ''xml''\<rparr>,
     \<lparr>extension = ''.dae'', caseSensitive = True, language = ''xml''\<rparr>,
     \<lparr>extension = ''.css'', caseSensitive = True, language = ''css''\<rparr>,
     \<lparr>extension = ''.qss'', caseSensitive = True, language = ''css''\<rparr>,
     \<lparr>extension = ''.scss'', caseSensitive = True, language = ''scss''\<rparr>,
     \<lparr>extension = ''.p'', caseSensitive = True, language = ''pascal''\<rparr>,
     \<lparr>extension = ''.pas'', caseSensitive = True, language = ''pascal''\<rparr>,
     \<lparr>extension = ''.desktop'', caseSensitive = True, language = ''desktop''\<rparr>,
     \<lparr>extension = ''.desktop.in'', caseSensitive = True, language = ''desktop''\<rparr>,
     \<lparr>extension = ''.directory'', caseSensitive = True, language = ''desktop''\<rparr>,
     \<lparr>extension = ''.kvconfig'', caseSensitive = True, language = ''config''\<rparr>,
     \<lparr>extension = ''.service'', caseSensitive = True, language = ''config''\<rparr>,
     \<lparr>extension = ''.mount'', caseSensitive = True, language = ''config''\<rparr>,
     \<lparr>extension = ''.timer'', caseSensitive = True, language = ''config''\<rparr>,
     \<lparr>extension = ''.pls'', caseSensitive = False, language = ''config''\<rparr>,
     \<lparr>extension = ''.js'', caseSensitive = True, language = ''javascript''\<rparr>,
     \<lparr>extension = ''.hx'', caseSensitive = True, language = ''javascript''\<rparr>,
     \<lparr>extension = ''.java'', caseSensitive = True, language = ''java''\<rparr>,
     \<lparr>extension = ''.json'', caseSensitive = True, language = ''json''\<rparr>,
     \<lparr>extension = ''.qml'', caseSensitive = True, language = ''qml''\<rparr>,
     \<lparr>extension = ''.log'', caseSensitive = False, language = ''log''\<rparr>,
     \<lparr>extension = ''.php'', caseSensitive = True, language = ''php''\<rparr>,
     \<lparr>extension = ''.diff'', caseSensitive = True, language = ''diff''\<rparr>,
     \<lparr>extension = ''.patch'', caseSensitive = True, language = ''diff''\<rparr>,
     \<lparr>extension = ''.srt'', caseSensitive = True, language = ''srt''\<rparr>,
     \<lparr>extension = ''.theme'', caseSensitive = True, language = ''theme''\<rparr>,
     \<lparr>extension = ''.fountain'', caseSensitive = True, language = ''fountain''\<rparr>,
     \<lparr>extension = ''.yml'', caseSensitive = True, language = ''yaml''\<rparr>,
     \<lparr>extension = ''.yaml'', caseSensitive = True, language = ''yaml''\<rparr>,
     \<lparr>extension = ''.m3u'', caseSensitive = False, language = ''m3u''\<rparr>,
     \<lparr>extension = ''.htm'', caseSensitive = False, language = ''html''\<rparr>,
     \<lparr>extension = ''.html'', caseSensitive = False, language = ''html''\<rparr>,
     \<lparr>extension = ''.markdown'', caseSensitive = True, language = ''markdown''\<rparr>,
     \<lparr>extension = ''.md'', caseSensitive = True, language = ''markdown''\<rparr>,
     \<lparr>extension = ''.mkd'', caseSensitive = True, language = ''markdown''\<rparr>,
     \<lparr>extension = ''.rst'', caseSensitive = True, language = ''reST''\<rparr>,
     \<lparr>extension = ''.dart'', caseSensitive = True, language = ''dart''\<rparr>,
     \<lparr>extension = ''.go'', caseSensitive = True, language = ''go''\<rparr>,
     \<lparr>extension = ''.rs'', caseSensitive = True, language = ''rust''\<rparr>,
     \<lparr>extension = ''.tcl'', caseSensitive = True, language = ''tcl''\<rparr>,
     \<lparr>extension = ''.tk'', caseSensitive = True, language = ''tcl''\<rparr>,
     \<lparr>extension = ''.toml'', caseSensitive = True, language = ''toml''\<rparr>
    ]"

definition specialFilenamesMap :: "(string \<times> string) list" where
  "specialFilenamesMap =
    [
     (''makefile'', ''makefile''),
     (''makefile.am'', ''makefile''),
     (''makelist'', ''makefile''),
     (''pkgbuild'', ''sh''),
     (''fstab'', ''sh''),
     (''changelog'', ''changelog''),
     (''gtkrc'', ''gtkrc''),
     (''control'', ''deb''),
     (''mirrorlist'', ''config''),
     (''themerc'', ''openbox''),
     (''bashrc'', ''sh''),
     (''bash_profile'', ''sh''),
     (''bash_functions'', ''sh''),
     (''bash_logout'', ''sh''),
     (''bash_aliases'', ''sh''),
     (''xprofile'', ''sh''),
     (''profile'', ''sh''),
     (''mkshrc'', ''sh''),
     (''zprofile'', ''sh''),
     (''zlogin'', ''sh''),
     (''zshrc'', ''sh''),
     (''zshenv'', ''sh''),
     (''cmakelists.txt'', ''cmake'')
    ]"

definition mimeLanguageMap :: "(string \<times> string) list" where
  "mimeLanguageMap =
    [
     (''text/x-c++'', ''cpp''),
     (''text/x-c++src'', ''cpp''),
     (''text/x-c++hdr'', ''cpp''),
     (''text/x-chdr'', ''cpp''),
     (''text/x-c'', ''c''),
     (''text/x-csrc'', ''c''),
     (''application/x-shellscript'', ''sh''),
     (''text/x-shellscript'', ''sh''),
     (''application/x-ruby'', ''ruby''),
     (''text/x-lua'', ''lua''),
     (''application/x-perl'', ''perl''),
     (''text/x-makefile'', ''makefile''),
     (''text/x-cmake'', ''cmake''),
     (''application/vnd.nokia.qt.qmakeprofile'', ''qmake''),
     (''text/troff'', ''troff''),
     (''application/x-troff-man'', ''troff''),
     (''text/x-tex'', ''LaTeX''),
     (''application/x-lyx'', ''LaTeX''),
     (''text/html'', ''html''),
     (''application/xhtml+xml'', ''html''),
     (''application/xml'', ''xml''),
     (''application/xml-dtd'', ''xml''),
     (''text/feathernotes-fnx'', ''xml''),
     (''audio/x-ms-asx'', ''xml''),
     (''text/x-nfo'', ''xml''),
     (''text/css'', ''css''),
     (''text/x-scss'', ''scss''),
     (''text/x-pascal'', ''pascal''),
     (''text/x-changelog'', ''changelog''),
     (''application/x-desktop'', ''desktop''),
     (''audio/x-scpls'', ''config''),
     (''application/vnd.kde.kcfgc'', ''config''),
     (''application/javascript'', ''javascript''),
     (''text/javascript'', ''javascript''),
     (''text/x-java'', ''java''),
     (''application/json'', ''json''),
     (''application/schema+json'', ''json''),
     (''text/x-qml'', ''qml''),
     (''text/x-log'', ''log''),
     (''application/x-php'', ''php''),
     (''text/x-php'', ''php''),
     (''application/x-theme'', ''theme''),
     (''text/x-diff'', ''diff''),
     (''text/x-patch'', ''diff''),
     (''text/markdown'', ''markdown''),
     (''audio/x-mpegurl'', ''m3u''),
     (''application/vnd.apple.mpegurl'', ''m3u''),
     (''text/x-go'', ''go''),
     (''text/rust'', ''rust''),
     (''text/x-tcl'', ''tcl''),
     (''text/tcl'', ''tcl''),
     (''application/toml'', ''toml'')
    ]"

subsection \<open>The lookup helpers\<close>

definition languageForSpecialFilename :: "string \<Rightarrow> string" where
  "languageForSpecialFilename baseName =
     (let key = toLower baseName in
      case map_of specialFilenamesMap key of Some v \<Rightarrow> v | None \<Rightarrow> [])"

text \<open>
  The range-based \<open>for\<close> of \<open>languageForExtension\<close> over a table: the first entry
  that matches returns. \<open>languageForExtension\<close> runs it over \<open>extensionLanguageMap\<close>.
\<close>

fun languageForExtension_loop :: "extensionEntry list \<Rightarrow> string \<Rightarrow> string \<Rightarrow> string" where
  "languageForExtension_loop [] fname lowerFname = []"
| "languageForExtension_loop (entry # rest) fname lowerFname =
     (if caseSensitive entry then
        (if endsWith fname (extension entry) then language entry
         else languageForExtension_loop rest fname lowerFname)
      else
        (if endsWith lowerFname (extension entry) then language entry
         else languageForExtension_loop rest fname lowerFname))"

definition languageForExtension_in :: "extensionEntry list \<Rightarrow> string \<Rightarrow> string" where
  "languageForExtension_in table fname = languageForExtension_loop table fname (toLower fname)"

definition languageForExtension :: "string \<Rightarrow> string" where
  "languageForExtension fname = languageForExtension_in extensionLanguageMap fname"

record QMimeType =
  mimeName :: string
  parentMimeTypes :: "string list"

fun firstKnownParent :: "string list \<Rightarrow> string" where
  "firstKnownParent [] = []"
| "firstKnownParent (parentMime # rest) =
     (case map_of mimeLanguageMap parentMime of Some v \<Rightarrow> v | None \<Rightarrow> firstKnownParent rest)"

definition languageForMime :: "QMimeType \<Rightarrow> string" where
  "languageForMime mimeType =
     (case map_of mimeLanguageMap (mimeName mimeType) of
        Some v \<Rightarrow> v
      | None \<Rightarrow> firstKnownParent (parentMimeTypes mimeType))"

text \<open>
  What \<open>QFileInfo\<close> and \<open>QMimeDatabase\<close> answer about a path is the state of the file
  system, a parameter of the model.
\<close>

record fileSystem =
  fileExists :: "string \<Rightarrow> bool"
  isSymLink :: "string \<Rightarrow> bool"
  canonicalFilePath :: "string \<Rightarrow> string"
  symLinkTarget :: "string \<Rightarrow> string"
  mimeTypeForFile :: "string \<Rightarrow> QMimeType"

definition resolvedFilePath :: "fileSystem \<Rightarrow> string \<Rightarrow> string" where
  "resolvedFilePath fs filename =
     (if \<not> fileExists fs filename then filename
      else if isSymLink fs filename then
        (let finalTarget = canonicalFilePath fs filename in
         if finalTarget \<noteq> [] then finalTarget else symLinkTarget fs filename)
      else filename)"

text \<open>\<open>QFileInfo(fname).fileName()\<close>: the path after its last slash.\<close>

definition baseNameOf :: "string \<Rightarrow> string" where
  "baseNameOf path = rev (takeWhile (\<lambda>c. c \<noteq> CHR ''/'') (rev path))"

subsection \<open>\<open>FPwin::setProgLang\<close>\<close>

text \<open>
  Of a \<open>TextEdit\<close> the classifier reads the file name and writes the language
  (\<open>setProg\<close>). The pointer may be null: \<open>None\<close>.
\<close>

record TextEdit =
  fileName :: string
  prog :: string

definition setProgLang :: "fileSystem \<Rightarrow> TextEdit option \<Rightarrow> TextEdit option" where
  "setProgLang fs textEdit =
     (case textEdit of
        None \<Rightarrow> None
      | Some te \<Rightarrow>
          if fileName te = [] then Some te
          else
            let fname = resolvedFilePath fs (fileName te) in
            if endsWith_ci fname ''.sub'' then Some te
            else
              let lang = languageForSpecialFilename (baseNameOf fname) in
              if lang \<noteq> [] then Some (te\<lparr>prog := lang\<rparr>)
              else
                let lang = languageForExtension fname in
                if lang \<noteq> [] then Some (te\<lparr>prog := lang\<rparr>)
                else
                  let lang =
                    (if fileExists fs fname then
                       (let mimeType = mimeTypeForFile fs fname in
                        if startsWith (mimeName mimeType) ''text/x-python'' then ''python''
                        else languageForMime mimeType)
                     else ''url'') in
                  let lang = (if lang = [] then ''url'' else lang) in
                  Some (te\<lparr>prog := lang\<rparr>))"

section \<open>highlighter-sh.cpp: the shell line lexer\<close>

subsection \<open>Formats, block data and the state of the highlighter\<close>

text \<open>
  The character formats the lexer compares and sets are the members of the highlighter;
  \<open>NoFormat\<close> is the default-constructed \<open>QTextCharFormat\<close> that \<open>format(pos)\<close>
  answers for a position nothing was set on (or outside the line), \<open>otherFormat\<close>
  stands for the formats of the other rules.
\<close>

datatype charFormat =
  NoFormat | neutralFormat | commentFormat | quoteFormat | altQuoteFormat
  | urlFormat | urlInsideQuoteFormat | otherFormat nat

text \<open>
  \<open>TextBlockData\<close>, the per-line auxiliary data: the pending here-doc label, the number
  of open command substitutions, the nesting depths that are inside a double quote, the
  boolean property set for a line like \<open>VAR="$(cat<<EOF\<close>, and the highlighted flag.
  \<open>insertNestInfo\<close> stores the count, \<open>insertOpenQuotes\<close> adds the depths.
\<close>

record TextBlockData =
  labelInfo :: string
  openNests :: int
  openQuotes :: "int set"
  property :: bool
  highlighted :: bool

definition insertNestInfo :: "int \<Rightarrow> TextBlockData \<Rightarrow> TextBlockData" where
  "insertNestInfo nests d = d\<lparr>openNests := nests\<rparr>"

definition insertOpenQuotes :: "int set \<Rightarrow> TextBlockData \<Rightarrow> TextBlockData" where
  "insertOpenQuotes qs d = d\<lparr>openQuotes := openQuotes d \<union> qs\<rparr>"

definition setProperty :: "bool \<Rightarrow> TextBlockData \<Rightarrow> TextBlockData" where
  "setProperty p d = d\<lparr>property := p\<rparr>"

text \<open>
  What the lexer reads and writes of the current block: the format of each character of
  the line (the vector behind \<open>setFormat\<close> and \<open>format\<close>), the block state and the
  block's user data (a null pointer is \<open>None\<close>).
\<close>

record hstate =
  formats :: "charFormat list"
  blockState :: int
  blockData :: "TextBlockData option"

text \<open>What it reads of the previous block, and the language of the document.\<close>

record blockContext =
  previousBlockState :: int
  prevData :: "TextBlockData option"
  progLan :: string

text \<open>
  \<open>QSyntaxHighlighter::format\<close> and \<open>setFormat\<close>: a position outside the line has the
  default format, a range is clipped to the line, a start outside the line sets nothing.
\<close>

definition format :: "hstate \<Rightarrow> int \<Rightarrow> charFormat" where
  "format h pos =
     (if pos < 0 \<or> pos \<ge> int (length (formats h)) then NoFormat else formats h ! nat pos)"

definition setFormat :: "int \<Rightarrow> int \<Rightarrow> charFormat \<Rightarrow> hstate \<Rightarrow> hstate" where
  "setFormat start cnt f h =
     (if start < 0 \<or> start \<ge> int (length (formats h)) then h
      else
        let stop = min (start + cnt) (int (length (formats h))) in
        h\<lparr>formats :=
             map (\<lambda>i. if start \<le> int i \<and> int i < stop then f else formats h ! i)
               [0..<length (formats h)]\<rparr>)"

definition setCurrentBlockState :: "int \<Rightarrow> hstate \<Rightarrow> hstate" where
  "setCurrentBlockState s h = h\<lparr>blockState := s\<rparr>"

subsection \<open>Strings and regular expressions\<close>

text \<open>
  A regular expression is what it matches: the length of its match starting at a
  position of a text, if there is one. \<open>indexOf\<close> is
  \<open>QString::indexOf(re, from, &match)\<close>: the first position from \<open>from\<close> on where the
  expression matches, with the captured length, or \<open>-1\<close>; a negative \<open>from\<close> counts from
  the end of the text.
\<close>

type_synonym regex = "string \<Rightarrow> nat \<Rightarrow> nat option"

definition indexOf :: "string \<Rightarrow> regex \<Rightarrow> int \<Rightarrow> int \<times> nat" where
  "indexOf text re from =
     (let len = int (length text);
          off = (if from < 0 then from + len else from) in
      if off < 0 \<or> off > len then (-1, 0)
      else
        case List.find (\<lambda>p. re text p \<noteq> None) [nat off..<Suc (length text)] of
          None \<Rightarrow> (-1, 0)
        | Some p \<Rightarrow> (int p, the (re text p)))"

definition dq :: char where "dq = CHR 0x22"
definition sq :: char where "sq = CHR 0x27"

text \<open>
  The three quote expressions of the highlighter for a shell script: the double quote,
  the single quote, and either of them. The variable \<open>quoteExpression\<close> holds one of
  the three.
\<close>

definition quoteMark :: regex where
  "quoteMark text p = (if p < length text \<and> text ! p = dq then Some 1 else None)"

definition singleQuoteMark :: regex where
  "singleQuoteMark text p = (if p < length text \<and> text ! p = sq then Some 1 else None)"

definition mixedQuoteMark :: regex where
  "mixedQuoteMark text p =
     (if p < length text \<and> (text ! p = dq \<or> text ! p = sq) then Some 1 else None)"

definition codeBlockStart :: regex where
  "codeBlockStart text p =
     (if Suc p < length text \<and> text ! p = CHR ''$'' \<and> text ! Suc p = CHR ''('' then Some 2
      else None)"

datatype quoteExpr = MixedQuoteMark | QuoteMark | SingleQuoteMark

fun regexOf :: "quoteExpr \<Rightarrow> regex" where
  "regexOf MixedQuoteMark = mixedQuoteMark"
| "regexOf QuoteMark = quoteMark"
| "regexOf SingleQuoteMark = singleQuoteMark"

definition charAt :: "string \<Rightarrow> int \<Rightarrow> char option" where
  "charAt text i = (if 0 \<le> i \<and> i < int (length text) then Some (text ! nat i) else None)"

text \<open>\<open>QString::mid(position, n)\<close>, clipped to the string as Qt does.\<close>

definition mid :: "string \<Rightarrow> int \<Rightarrow> int \<Rightarrow> string" where
  "mid s position n =
     (let len = int (length s) in
      if position > len then []
      else if position < 0 then
        (if n < 0 \<or> n + position \<ge> len then s
         else if n + position \<le> 0 then []
         else take (nat (n + position)) s)
      else if n < 0 \<or> n > len - position then drop (nat position) s
      else take (nat n) (drop (nat position) s))"

text \<open>\<open>QChar::isSpace\<close> on the characters a \<open>char\<close> can hold.\<close>

definition isSpace :: "char \<Rightarrow> bool" where
  "isSpace c =
     (let n = (of_char c :: nat) in n = 0x20 \<or> (0x09 \<le> n \<and> n \<le> 0x0D) \<or> n = 0x85 \<or> n = 0xA0)"

subsection \<open>What is declared outside highlighter-sh.cpp\<close>

text \<open>
  The lexer uses members of \<open>Highlighter\<close> that are declared and defined in other
  files: the values of the block states, the here-doc and URL expressions, the queries
  \<open>isEscapedQuote\<close>, \<open>isEscapedChar\<close> and \<open>isQuoted\<close>, and
  \<open>setFormatWithoutOverwrite\<close>. They are parameters of the model. The queries may read
  the state of the highlighter, so they receive it; \<open>setFormatWithoutOverwrite\<close> writes
  formats only.
\<close>

record env =
  doubleQuoteState :: int
  singleQuoteState :: int
  SH_DoubleQuoteState :: int
  SH_SingleQuoteState :: int
  SH_MixedDoubleQuoteState :: int
  SH_MixedSingleQuoteState :: int
  endState :: int
  hereDocDelimiter :: regex
  urlPattern :: regex
  isEscapedQuote :: "hstate \<Rightarrow> string \<Rightarrow> int \<Rightarrow> bool \<Rightarrow> bool"
  isEscapedChar :: "hstate \<Rightarrow> string \<Rightarrow> int \<Rightarrow> bool"
  isQuoted :: "hstate \<Rightarrow> string \<Rightarrow> int \<Rightarrow> bool \<Rightarrow> bool"
  setFormatWithoutOverwrite ::
    "charFormat list \<Rightarrow> int \<Rightarrow> int \<Rightarrow> charFormat \<Rightarrow> charFormat \<Rightarrow> charFormat list"

subsection \<open>\<open>SH_SkipQuote\<close> and the loops that skip quotes\<close>

definition SH_SkipQuote :: "env \<Rightarrow> hstate \<Rightarrow> string \<Rightarrow> int \<Rightarrow> bool \<Rightarrow> bool" where
  "SH_SkipQuote E h text pos isStartQuote =
     (if isEscapedQuote E h text pos isStartQuote then True
      else
        let fmt = format h pos in
        fmt = neutralFormat \<or> fmt = commentFormat \<or> fmt = urlFormat \<or> fmt = quoteFormat
        \<or> fmt = altQuoteFormat \<or> fmt = urlInsideQuoteFormat)"

text \<open>
  The loops of the lexer whose exit depends on a helper take fuel: the number of
  iterations they may still run. \<open>None\<close> is a loop that has not ended within its fuel.

  \<open>while (SH_SkipQuote(text, index, b)) index = text.indexOf(quoteExpression, index + 1);\<close>
  The pair is the index with the captured length of its match.
\<close>

fun skipQuotes ::
  "nat \<Rightarrow> env \<Rightarrow> hstate \<Rightarrow> string \<Rightarrow> quoteExpr \<Rightarrow> bool \<Rightarrow> int \<times> nat \<Rightarrow> (int \<times> nat) option"
where
  "skipQuotes 0 E h text qe isStartQuote ic = None"
| "skipQuotes (Suc n) E h text qe isStartQuote ic =
     (if SH_SkipQuote E h text (fst ic) isStartQuote
      then skipQuotes n E h text qe isStartQuote (indexOf text (regexOf qe) (fst ic + 1))
      else Some ic)"

text \<open>
  \<open>while (hereDocDelimPos > -1 && isQuoted(text, hereDocDelimPos, true))
     hereDocDelimPos = text.indexOf(hereDocDelimiter, hereDocDelimPos + 2);\<close>
\<close>

fun skipQuotedDelimiters :: "nat \<Rightarrow> env \<Rightarrow> hstate \<Rightarrow> string \<Rightarrow> int \<Rightarrow> int option" where
  "skipQuotedDelimiters 0 E h text hereDocDelimPos = None"
| "skipQuotedDelimiters (Suc n) E h text hereDocDelimPos =
     (if hereDocDelimPos > -1 \<and> isQuoted E h text hereDocDelimPos True
      then skipQuotedDelimiters n E h text
             (fst (indexOf text (hereDocDelimiter E) (hereDocDelimPos + 2)))
      else Some hereDocDelimPos)"

text \<open>
  \<open>while (isEscapedQuote(text, end, false)) end = text.indexOf(singleQuoteMark, end + 1);\<close>
\<close>

fun skipEscapedEnds :: "nat \<Rightarrow> env \<Rightarrow> hstate \<Rightarrow> string \<Rightarrow> int \<Rightarrow> int option" where
  "skipEscapedEnds 0 E h text endPos = None"
| "skipEscapedEnds (Suc n) E h text endPos =
     (if isEscapedQuote E h text endPos False
      then skipEscapedEnds n E h text (fst (indexOf text singleQuoteMark (endPos + 1)))
      else Some endPos)"

subsection \<open>\<open>highlightUrlsWithinQuote\<close>\<close>

fun urlLoop :: "nat \<Rightarrow> env \<Rightarrow> string \<Rightarrow> int \<Rightarrow> int \<Rightarrow> hstate \<Rightarrow> hstate option" where
  "urlLoop 0 E segment start urlIndex h = None"
| "urlLoop (Suc n) E segment start urlIndex h =
     (case indexOf segment (urlPattern E) urlIndex of
        (found, captured) \<Rightarrow>
          if found > -1 then
            urlLoop n E segment start (found + int captured)
              (setFormat (start + found) (int captured) urlInsideQuoteFormat h)
          else Some h)"

definition highlightUrlsWithinQuote ::
  "nat \<Rightarrow> env \<Rightarrow> string \<Rightarrow> int \<Rightarrow> int \<Rightarrow> hstate \<Rightarrow> hstate option"
where
  "highlightUrlsWithinQuote n E text start len h = urlLoop n E (mid text start len) start 0 h"

subsection \<open>\<open>SH_MultiLineQuote\<close>\<close>

text \<open>
  The state a quote that does not end on the line leaves, and the mark on the block data
  for an open double quote before a here-doc delimiter inside a command substitution.
\<close>

definition unterminatedQuote :: "env \<Rightarrow> quoteExpr \<Rightarrow> int \<Rightarrow> int \<Rightarrow> hstate \<Rightarrow> hstate" where
  "unterminatedQuote E quoteExpression hereDocDelimPos initialState h =
     (if quoteExpression \<noteq> QuoteMark \<or> hereDocDelimPos = -1 then
        setCurrentBlockState
          (if quoteExpression = QuoteMark then
             (if initialState = SH_DoubleQuoteState E then SH_MixedDoubleQuoteState E
              else if initialState = SH_SingleQuoteState E then SH_MixedSingleQuoteState E
              else doubleQuoteState E)
           else singleQuoteState E) h
      else
        (case blockData h of
           Some curData \<Rightarrow>
             if openNests curData > 0 then h\<lparr>blockData := Some (setProperty True curData)\<rparr>
             else h
         | None \<Rightarrow> h))"

text \<open>
  The main loop, \<open>while (index >= 0)\<close>: one pass through its body gives the next
  index and the state; the loop runs the body until the index is negative. After its
  first pass \<open>quoteExpression\<close> is again \<open>mixedQuoteMark\<close>.
\<close>

definition quoteStep ::
  "nat \<Rightarrow> env \<Rightarrow> string \<Rightarrow> bool \<Rightarrow> int \<Rightarrow> int \<Rightarrow> int \<Rightarrow> quoteExpr \<Rightarrow> hstate
     \<Rightarrow> (int \<times> hstate) option"
where
  "quoteStep n E text wasQuoted hereDocDelimPos initialState index quoteExpression0 h =
     (let quoteExpression =
            (if quoteExpression0 = MixedQuoteMark then
               (if charAt text index = Some dq then QuoteMark else SingleQuoteMark)
             else quoteExpression0) in
      do {
        (endIndex, captured) \<leftarrow>
          skipQuotes n E h text quoteExpression False
            (if index = 0 \<and> wasQuoted then indexOf text (regexOf quoteExpression) 0
             else indexOf text (regexOf quoteExpression) (index + 1));
        let h1 = (if endIndex = -1
                  then unterminatedQuote E quoteExpression hereDocDelimPos initialState h
                  else h);
        let quoteLength = (if endIndex = -1 then int (length text) - index
                           else endIndex - index + int captured);
        let h2 = (if quoteExpression = QuoteMark then
                    h1\<lparr>formats :=
                         setFormatWithoutOverwrite E (formats h1) index quoteLength
                           quoteFormat neutralFormat\<rparr>
                  else setFormat index quoteLength altQuoteFormat h1);
        h3 \<leftarrow> highlightUrlsWithinQuote n E text index quoteLength h2;
        (found, _) \<leftarrow>
          skipQuotes n E h3 text MixedQuoteMark True
            (indexOf text mixedQuoteMark (index + quoteLength));
        Some (if hereDocDelimPos > -1 \<and> found > hereDocDelimPos then -1 else found, h3)
      })"

fun quoteLoop ::
  "nat \<Rightarrow> env \<Rightarrow> string \<Rightarrow> bool \<Rightarrow> int \<Rightarrow> int \<Rightarrow> int \<Rightarrow> quoteExpr \<Rightarrow> hstate \<Rightarrow> hstate option"
where
  "quoteLoop 0 E text wasQuoted hereDocDelimPos initialState index quoteExpression h = None"
| "quoteLoop (Suc n) E text wasQuoted hereDocDelimPos initialState index quoteExpression h =
     (if index \<ge> 0 then
        do {
          (index', h') \<leftarrow>
            quoteStep n E text wasQuoted hereDocDelimPos initialState index quoteExpression h;
          quoteLoop n E text wasQuoted hereDocDelimPos initialState index' MixedQuoteMark h'
        }
      else Some h)"

text \<open>
  Before the loop: the position of the here-doc delimiter of a block that has a label,
  and the first quote of the line with the expression to close it, or position 0 with
  the expression of the quote that the previous line left open.
\<close>

definition findHereDocDelimPos :: "nat \<Rightarrow> env \<Rightarrow> string \<Rightarrow> hstate \<Rightarrow> int option" where
  "findHereDocDelimPos n E text h =
     (case blockData h of
        Some curData \<Rightarrow>
          if labelInfo curData \<noteq> [] then
            skipQuotedDelimiters n E h text (fst (indexOf text (hereDocDelimiter E) 0))
          else Some (-1)
      | None \<Rightarrow> Some (-1))"

definition firstQuote ::
  "nat \<Rightarrow> env \<Rightarrow> string \<Rightarrow> bool \<Rightarrow> bool \<Rightarrow> int \<Rightarrow> hstate \<Rightarrow> (int \<times> quoteExpr) option"
where
  "firstQuote n E text wasQuoted wasDoubleQuoted hereDocDelimPos h =
     (if \<not> wasQuoted then
        do {
          (found, _) \<leftarrow> skipQuotes n E h text MixedQuoteMark True (indexOf text mixedQuoteMark 0);
          let index = (if found \<ge> 0 \<and> hereDocDelimPos > -1 \<and> found > hereDocDelimPos
                       then -1 else found);
          Some (index,
                if index \<ge> 0 then
                  (if charAt text index = Some dq then QuoteMark else SingleQuoteMark)
                else MixedQuoteMark)
        }
      else Some (0, if wasDoubleQuoted then QuoteMark else SingleQuoteMark))"

definition SH_MultiLineQuote ::
  "nat \<Rightarrow> env \<Rightarrow> blockContext \<Rightarrow> string \<Rightarrow> hstate \<Rightarrow> hstate option"
where
  "SH_MultiLineQuote n E C text h =
     (let prevState = previousBlockState C;
          initialState = blockState h;
          wasDoubleQuoted0 =
            (prevState = doubleQuoteState E \<or> prevState = SH_MixedDoubleQuoteState E
             \<or> prevState = SH_MixedSingleQuoteState E);
          wasQuoted0 = (wasDoubleQuoted0 \<or> prevState = singleQuoteState E);
          endedHereDoc = (case prevData C of Some pd \<Rightarrow> property pd | None \<Rightarrow> False);
          wasQuoted = (wasQuoted0 \<or> endedHereDoc);
          wasDoubleQuoted = (wasDoubleQuoted0 \<or> endedHereDoc)
      in do {
        hereDocDelimPos \<leftarrow> findHereDocDelimPos n E text h;
        (index, quoteExpression) \<leftarrow>
          firstQuote n E text wasQuoted wasDoubleQuoted hereDocDelimPos h;
        quoteLoop n E text wasQuoted hereDocDelimPos initialState index quoteExpression h
      })"

subsection \<open>\<open>formatInsideCommand\<close> and its helpers\<close>

text \<open>
  The variables of one activation of \<open>formatInsideCommand\<close>, with the state of the
  highlighter and the two reference parameters \<open>nestCount\<close> and \<open>quotes\<close>.
\<close>

record scan =
  hl :: hstate
  nestCount :: int
  quotes :: "int set"
  parenDepth :: int
  currentIndex :: int
  doubleQuoted :: bool
  inComment :: bool

definition put :: "charFormat \<Rightarrow> scan \<Rightarrow> scan" where
  "put f s = s\<lparr>hl := setFormat (currentIndex s) 1 f (hl s)\<rparr>"

definition advance :: "scan \<Rightarrow> scan" where
  "advance s = s\<lparr>currentIndex := currentIndex s + 1\<rparr>"

text \<open>
  \<open>while (currentIndex < textLen && format(currentIndex) == commentFormat) ++currentIndex;\<close>
\<close>

function skipCommentFormat :: "hstate \<Rightarrow> int \<Rightarrow> int \<Rightarrow> int" where
  "skipCommentFormat h textLen i =
     (if i < textLen \<and> format h i = commentFormat then skipCommentFormat h textLen (i + 1)
      else i)"
  by pat_completeness auto
termination
  by (relation "measure (\<lambda>(h, textLen, i). nat (textLen - i))") auto

declare skipCommentFormat.simps [simp del]

definition handleSingleQuote :: "nat \<Rightarrow> env \<Rightarrow> string \<Rightarrow> bool \<Rightarrow> scan \<Rightarrow> scan option" where
  "handleSingleQuote n E text isHereDocStart s =
     (if inComment s then Some (advance (put commentFormat s))
      else if doubleQuoted s then Some (advance (put quoteFormat s))
      else if isEscapedQuote E (hl s) text (currentIndex s) True then Some (advance s)
      else do {
        endPos \<leftarrow> skipEscapedEnds n E (hl s) text
                    (fst (indexOf text singleQuoteMark (currentIndex s + 1)));
        (if endPos = -1 then
           (let h1 = setFormat (currentIndex s) (int (length text) - currentIndex s)
                       altQuoteFormat (hl s);
                h2 = (if \<not> isHereDocStart then setCurrentBlockState (SH_SingleQuoteState E) h1
                      else h1) in
            Some (s\<lparr>hl := h2, currentIndex := int (length text)\<rparr>))
         else
           Some (s\<lparr>hl := setFormat (currentIndex s) (endPos - currentIndex s + 1) altQuoteFormat
                            (hl s),
                    currentIndex := endPos + 1\<rparr>))
      })"

definition handleDoubleQuote :: "env \<Rightarrow> string \<Rightarrow> scan \<Rightarrow> scan" where
  "handleDoubleQuote E text s =
     advance
       (if inComment s then put commentFormat s
        else if \<not> isEscapedQuote E (hl s) text (currentIndex s) True then
          put quoteFormat (s\<lparr>doubleQuoted := \<not> doubleQuoted s\<rparr>)
        else s)"

definition handleOpenParenthesis :: "env \<Rightarrow> string \<Rightarrow> scan \<Rightarrow> scan" where
  "handleOpenParenthesis E text s =
     advance
       (if doubleQuoted s then put quoteFormat s
        else if inComment s then put commentFormat s
        else
          (let s1 = put neutralFormat s in
           if \<not> isEscapedChar E (hl s1) text (currentIndex s1)
           then s1\<lparr>parenDepth := parenDepth s1 + 1\<rparr>
           else s1))"

text \<open>
  The result is the flag the function returns with the variables it leaves. The
  parameter \<open>initialOpenNests\<close> is passed by value: what is assigned to it is lost.
\<close>

definition handleCloseParenthesis :: "env \<Rightarrow> string \<Rightarrow> int \<Rightarrow> scan \<Rightarrow> bool \<times> scan" where
  "handleCloseParenthesis E text initialOpenNests s =
     (if doubleQuoted s then (False, advance (put quoteFormat s))
      else if \<not> isEscapedChar E (hl s) text (currentIndex s) then
        (let s1 = s\<lparr>parenDepth := parenDepth s - 1\<rparr> in
         if parenDepth s1 < 0 then
           (True,
            advance
              ((put neutralFormat s1)
                 \<lparr>quotes := quotes s1 - {initialOpenNests},
                  nestCount := nestCount s1 - 1,
                  parenDepth := 0\<rparr>))
         else if inComment s1 then (False, advance (put commentFormat s1))
         else (False, advance (put neutralFormat s1)))
      else if inComment s then (False, advance (put commentFormat s))
      else (False, advance (put neutralFormat s)))"

definition handleCommentSign :: "string \<Rightarrow> scan \<Rightarrow> scan" where
  "handleCommentSign text s =
     (if inComment s then advance (put commentFormat s)
      else
        advance
          (if doubleQuoted s then put quoteFormat s
           else if currentIndex s = 0
                   \<or> (currentIndex s > 0
                       \<and> (case charAt text (currentIndex s - 1) of
                             Some c \<Rightarrow> isSpace c | None \<Rightarrow> False))
           then put commentFormat (s\<lparr>inComment := True\<rparr>)
           else put neutralFormat s))"

definition handleDefaultChar :: "scan \<Rightarrow> scan" where
  "handleDefaultChar s =
     advance
       (if inComment s then put commentFormat s
        else if doubleQuoted s then put quoteFormat s
        else put neutralFormat s)"

text \<open>
  The end of \<open>formatInsideCommand\<close>, after its loop: the clamp of \<open>nestCount\<close>, the block
  state of an open double quote and the update of \<open>quotes\<close>. The result is the index the
  function returns with the state, \<open>nestCount\<close> and \<open>quotes\<close> it leaves.
\<close>

definition finishCommand ::
  "env \<Rightarrow> bool \<Rightarrow> int \<Rightarrow> int \<Rightarrow> scan \<Rightarrow> int \<times> hstate \<times> int \<times> int set"
where
  "finishCommand E isHereDocStart minOpenNests initialOpenNests s =
     (let nc = (if nestCount s < minOpenNests then minOpenNests else nestCount s) in
      if doubleQuoted s then
        (currentIndex s,
         (if \<not> isHereDocStart \<and> blockState (hl s) \<noteq> SH_SingleQuoteState E
          then setCurrentBlockState (SH_DoubleQuoteState E) (hl s) else hl s),
         nc, insert initialOpenNests (quotes s))
      else (currentIndex s, hl s, nc, quotes s - {initialOpenNests}))"

text \<open>
  The loop of \<open>formatInsideCommand\<close>; one pass through its body after the comment
  characters are skipped, which handles the character at \<open>currentIndex\<close>;
  \<open>handleDollarSign\<close>, which enters a nested substitution through
  \<open>formatInsideCommand\<close>; and \<open>formatInsideCommand\<close> itself.
\<close>

function (sequential) commandLoop :: "nat \<Rightarrow> env \<Rightarrow> string \<Rightarrow> bool \<Rightarrow> int \<Rightarrow> int \<Rightarrow> scan \<Rightarrow> scan option"
  and commandStep :: "nat \<Rightarrow> env \<Rightarrow> string \<Rightarrow> bool \<Rightarrow> int \<Rightarrow> scan \<Rightarrow> scan option"
  and handleDollarSign :: "nat \<Rightarrow> env \<Rightarrow> string \<Rightarrow> bool \<Rightarrow> scan \<Rightarrow> scan option"
  and formatInsideCommand ::
    "nat \<Rightarrow> env \<Rightarrow> string \<Rightarrow> int \<Rightarrow> bool \<Rightarrow> int \<Rightarrow> hstate \<times> int \<times> int set
       \<Rightarrow> (int \<times> hstate \<times> int \<times> int set) option"
where
  "commandLoop 0 E text isHereDocStart minOpenNests initialOpenNests s = None"
| "commandLoop (Suc n) E text isHereDocStart minOpenNests initialOpenNests s =
     (if nestCount s > minOpenNests \<and> currentIndex s < int (length text) then
        (let s1 = s\<lparr>currentIndex :=
                      skipCommentFormat (hl s) (int (length text)) (currentIndex s)\<rparr> in
         if currentIndex s1 \<ge> int (length text) then Some s1
         else
           do {
             s2 \<leftarrow> commandStep n E text isHereDocStart initialOpenNests s1;
             commandLoop n E text isHereDocStart minOpenNests initialOpenNests s2
           })
      else Some s)"
| "commandStep n E text isHereDocStart initialOpenNests s =
     (let c = charAt text (currentIndex s) in
      if c = Some sq then handleSingleQuote n E text isHereDocStart s
      else if c = Some dq then Some (handleDoubleQuote E text s)
      else if c = Some (CHR ''$'') then handleDollarSign n E text isHereDocStart s
      else if c = Some (CHR ''('') then Some (handleOpenParenthesis E text s)
      else if c = Some (CHR '')'') then
        Some (snd (handleCloseParenthesis E text initialOpenNests s))
      else if c = Some (CHR ''#'') then Some (handleCommentSign text s)
      else Some (handleDefaultChar s))"
| "handleDollarSign n E text isHereDocStart s =
     (if inComment s then Some (advance (put commentFormat s))
      else if mid text (currentIndex s) 2 = ''$('' then
        do {
          (index, h, nc, qs) \<leftarrow>
            formatInsideCommand n E text (nestCount s + 1 - 1) isHereDocStart
              (currentIndex s + 2)
              (setFormat (currentIndex s) 2 neutralFormat (hl s), nestCount s + 1, quotes s);
          Some (s\<lparr>hl := h, nestCount := nc, quotes := qs, currentIndex := index\<rparr>)
        }
      else Some (advance (if doubleQuoted s then put quoteFormat s else put neutralFormat s)))"
| "formatInsideCommand n E text minOpenNests isHereDocStart index (h, nc, qs) =
     do {
       s \<leftarrow> commandLoop n E text isHereDocStart minOpenNests nc
              \<lparr>hl = h, nestCount = nc, quotes = qs, parenDepth = 0, currentIndex = index,
               doubleQuoted = (nc \<in> qs), inComment = False\<rparr>;
       Some (finishCommand E isHereDocStart minOpenNests nc s)
     }"
  by pat_completeness auto
termination
  by (relation "measure (\<lambda>x. case x of
          Inl (Inl (n, _)) \<Rightarrow> 4 * n
        | Inl (Inr (n, _)) \<Rightarrow> 4 * n + 3
        | Inr (Inl (n, _)) \<Rightarrow> 4 * n + 2
        | Inr (Inr (n, _)) \<Rightarrow> 4 * n + 1)") simp_all

declare commandLoop.simps [simp del] commandStep.simps [simp del]
  handleDollarSign.simps [simp del] formatInsideCommand.simps [simp del]

subsection \<open>\<open>SH_CmndSubstVar\<close>\<close>

definition closeOpenQuoteFromPreviousBlock ::
  "nat \<Rightarrow> env \<Rightarrow> string \<Rightarrow> int \<Rightarrow> bool \<Rightarrow> hstate \<Rightarrow> (int \<times> hstate) option"
where
  "closeOpenQuoteFromPreviousBlock n E text prevState isHereDocStart h =
     (if prevState = SH_SingleQuoteState E \<or> prevState = SH_MixedSingleQuoteState E then
        do {
          endPos \<leftarrow> skipEscapedEnds n E h text (fst (indexOf text singleQuoteMark 0));
          (if endPos = -1 then
             (let h1 = setFormat 0 (int (length text)) altQuoteFormat h in
              Some (int (length text),
                    if \<not> isHereDocStart then setCurrentBlockState (SH_SingleQuoteState E) h1
                    else h1))
           else Some (endPos + 1, setFormat 0 (endPos + 1) altQuoteFormat h))
        }
      else Some (0, h))"

text \<open>\<open>while (startIndex < text.length())\<close>, with its \<open>break\<close>.\<close>

fun substLoop ::
  "nat \<Rightarrow> env \<Rightarrow> string \<Rightarrow> bool \<Rightarrow> int \<Rightarrow> hstate \<times> int \<times> int set
     \<Rightarrow> (hstate \<times> int \<times> int set) option"
where
  "substLoop 0 E text isHereDocStart startIndex hnq = None"
| "substLoop (Suc n) E text isHereDocStart startIndex (h, nests, oquotes) =
     (if startIndex < int (length text) then
        (if nests = 0 then
           (let foundPos = fst (indexOf text codeBlockStart startIndex) in
            if foundPos = -1 \<or> format h foundPos = commentFormat
            then Some (h, nests, oquotes)
            else
              do {
                (index, hnq) \<leftarrow>
                  formatInsideCommand n E text 0 isHereDocStart (foundPos + 2)
                    (setFormat foundPos 2 neutralFormat h, nests + 1, oquotes);
                substLoop n E text isHereDocStart index hnq
              })
         else
           do {
             (index, hnq) \<leftarrow>
               formatInsideCommand n E text 0 isHereDocStart startIndex
                 (h, nests, oquotes);
             substLoop n E text isHereDocStart index hnq
           })
      else Some (h, nests, oquotes))"

text \<open>
  The block data the function is handed is the data of the current block. \<open>nests\<close> and
  \<open>oquotes\<close> are its variables \<open>nestCount\<close> and \<open>openQuotes\<close>. The result is the flag it
  returns, with the state it leaves.
\<close>

definition SH_CmndSubstVar ::
  "nat \<Rightarrow> env \<Rightarrow> blockContext \<Rightarrow> string \<Rightarrow> int \<Rightarrow> int set \<Rightarrow> hstate \<Rightarrow> (bool \<times> hstate) option"
where
  "SH_CmndSubstVar n E C text oldOpenNests oldOpenQuotes h =
     (if progLan C \<noteq> ''sh'' \<or> blockData h = None then Some (False, h)
      else
        (let prevState = previousBlockState C;
             curState = blockState h;
             isHereDocStart = (curState < -1 \<or> curState \<ge> endState E);
             nestCount0 = (case prevData C of Some pd \<Rightarrow> openNests pd | None \<Rightarrow> 0);
             openQuotes0 = (case prevData C of Some pd \<Rightarrow> openQuotes pd | None \<Rightarrow> {})
         in do {
           (startIndex, h1) \<leftarrow>
             (if nestCount0 > 0
                 \<and> (prevState = SH_SingleQuoteState E \<or> prevState = SH_DoubleQuoteState E
                      \<or> prevState = SH_MixedDoubleQuoteState E
                      \<or> prevState = SH_MixedSingleQuoteState E)
              then closeOpenQuoteFromPreviousBlock n E text prevState isHereDocStart h
              else Some (0, h));
           (h2, nests, oquotes) \<leftarrow>
             substLoop n E text isHereDocStart startIndex (h1, nestCount0, openQuotes0);
           let h3 = (if oquotes \<noteq> {}
                     then h2\<lparr>blockData := map_option (insertOpenQuotes oquotes) (blockData h2)\<rparr>
                     else h2);
           let h4 = (if nests > 0 then
                       (let h' = h3\<lparr>blockData :=
                                      map_option (insertNestInfo nests) (blockData h3)\<rparr> in
                        if isHereDocStart then
                          setCurrentBlockState
                            (if curState > 0 then curState + 2 * (nests + 3)
                             else curState - 2 * (nests + 3)) h'
                        else h')
                     else h3);
           Some (nests \<noteq> oldOpenNests \<or> oquotes \<noteq> oldOpenQuotes, h4)
         }))"

subsection \<open>A sample of the parameters\<close>

text \<open>
  To run the model on a concrete line the parameters need values. In this sample a
  quote or a character is escaped when an odd number of backslashes stands right before
  it, nothing counts as quoted for \<open>isQuoted\<close>, the here-doc expression matches
  \<open><<\<close> followed by a word of letters, the URL expression matches nothing, and
  \<open>setFormatWithoutOverwrite\<close> sets the new format on the positions of the range whose
  format is not the old one. The values of the block states are distinct numbers below
  \<open>endState\<close>.
\<close>

fun backslashesBefore :: "string \<Rightarrow> nat \<Rightarrow> nat" where
  "backslashesBefore text 0 = 0"
| "backslashesBefore text (Suc p) =
     (if p < length text \<and> text ! p = CHR 0x5C then Suc (backslashesBefore text p) else 0)"

definition isLetter :: "char \<Rightarrow> bool" where
  "isLetter c =
     (let n = (of_char c :: nat) in (65 \<le> n \<and> n \<le> 90) \<or> (97 \<le> n \<and> n \<le> 122) \<or> n = 95)"

definition hereDocWord :: regex where
  "hereDocWord text p =
     (if Suc (Suc p) < length text \<and> text ! p = CHR ''<'' \<and> text ! Suc p = CHR ''<''
         \<and> isLetter (text ! Suc (Suc p))
      then Some (2 + length (takeWhile isLetter (drop (Suc (Suc p)) text)))
      else None)"

definition sampleEnv :: env where
  "sampleEnv =
     \<lparr>doubleQuoteState = 3, singleQuoteState = 4, SH_DoubleQuoteState = 5,
      SH_SingleQuoteState = 6, SH_MixedDoubleQuoteState = 7, SH_MixedSingleQuoteState = 8,
      endState = 40,
      hereDocDelimiter = hereDocWord,
      urlPattern = (\<lambda>text p. None),
      isEscapedQuote = (\<lambda>h text pos isStartQuote. pos \<ge> 0 \<and> odd (backslashesBefore text (nat pos))),
      isEscapedChar = (\<lambda>h text pos. pos \<ge> 0 \<and> odd (backslashesBefore text (nat pos))),
      isQuoted = (\<lambda>h text pos isStart. False),
      setFormatWithoutOverwrite =
        (\<lambda>fs start cnt newFormat oldFormat.
           map (\<lambda>i. if start \<le> int i \<and> int i < start + cnt \<and> fs ! i \<noteq> oldFormat
                    then newFormat else fs ! i) [0..<length fs])\<rparr>"

text \<open>
  A block that nothing has been set on yet: no format on any character of the line, the
  given block state, and fresh block data.
\<close>

definition freshData :: TextBlockData where
  "freshData = \<lparr>labelInfo = [], openNests = 0, openQuotes = {}, property = False,
                highlighted = False\<rparr>"

definition freshBlock :: "string \<Rightarrow> int \<Rightarrow> hstate" where
  "freshBlock text s =
     \<lparr>formats = replicate (length text) NoFormat, blockState = s, blockData = Some freshData\<rparr>"

definition firstLine :: blockContext where
  "firstLine = \<lparr>previousBlockState = -1, prevData = None, progLan = ''sh''\<rparr>"

subsection \<open>What the lexer needs of the helpers\<close>

text \<open>
  Three properties of the parameters that the theorems below assume where they need them:
  no quote is escaped at a negative position (the \<open>-1\<close> of a search that found nothing),
  the URL expression does not match the empty string, and
  \<open>setFormatWithoutOverwrite\<close>, which sets formats, leaves their number alone.
\<close>

definition escapeContract :: "env \<Rightarrow> bool" where
  "escapeContract E \<longleftrightarrow>
     (\<forall>h text pos isStartQuote. pos < 0 \<longrightarrow> \<not> isEscapedQuote E h text pos isStartQuote)"

definition urlContract :: "env \<Rightarrow> bool" where
  "urlContract E \<longleftrightarrow> (\<forall>text p c. urlPattern E text p = Some c \<longrightarrow> 0 < c)"

definition formatContract :: "env \<Rightarrow> bool" where
  "formatContract E \<longleftrightarrow>
     (\<forall>fs start cnt newFormat oldFormat.
        length (setFormatWithoutOverwrite E fs start cnt newFormat oldFormat) = length fs)"

text \<open>
  The fuel that suffices for a loop that is at position \<open>i\<close> of the line and moves
  forward with every iteration: the characters left, and two.
\<close>

definition fuelFor :: "string \<Rightarrow> int \<Rightarrow> nat" where
  "fuelFor text i = (if i < 0 then 1 else nat (int (length text) - i) + 2)"

section \<open>UTF-8 validation is exact\<close>

subsection \<open>Bytes as numbers\<close>

lemma byte_cases: assumes "\<forall>n\<in>set [0..<256]. P (of_nat n :: byte)" shows "P b"
proof -
  have "unat b < 2 ^ LENGTH(8)" by (rule unsigned_less)
  then have "unat b \<in> set [0..<256]" by simp
  then have "P (of_nat (unat b))" using assms by blast
  then show ?thesis by simp
qed

lemma cont_iff: "((b::byte) AND 0xC0 = 0x80) = (128 \<le> unat b \<and> unat b < 192)"
  by (rule byte_cases[of _ b]) code_simp
lemma and3F: "unat ((b::byte) AND 0x3F) = unat b mod 64"
  by (rule byte_cases[of _ b]) code_simp
lemma and0F: "unat ((b::byte) AND 0x0F) = unat b mod 16"
  by (rule byte_cases[of _ b]) code_simp
lemma and07: "unat ((b::byte) AND 0x07) = unat b mod 8"
  by (rule byte_cases[of _ b]) code_simp

lemma or_add_nat: assumes b: "b < 2 ^ n" shows "push_bit n (a::nat) OR b = a * 2 ^ n + b"
proof -
  have tb: "take_bit n b = b" using b by (simp add: take_bit_nat_eq_self)
  have "push_bit n a + b = push_bit n a OR b"
  proof (rule disjunctive_add)
    fix k
    have "bit b k \<Longrightarrow> k < n" using bit_take_bit_iff[of n b k] tb by simp
    then show "\<not> bit (push_bit n a) k \<or> \<not> bit b k"
      by (auto simp: bit_push_bit_iff)
  qed
  then show ?thesis
    by (simp add: push_bit_eq_mult)
qed

lemma unat_ucast_byte: "unat (ucast (b::byte) :: 32 word) = unat b"
  by (simp add: unsigned_ucast_eq take_bit_nat_eq_self  order_less_trans[OF unsigned_less[of b]])

lemma unat_push_small:
  assumes "unat w * 2 ^ n < 2 ^ 32"
  shows "unat (push_bit n (w :: 32 word)) = push_bit n (unat w)"
proof -
  have "unat (push_bit n w) = take_bit 32 (push_bit n (unat w))"
    by (simp only: unsigned_push_bit_eq) simp
  also have "\<dots> = push_bit n (unat w)"
    using assms by (intro take_bit_nat_eq_self) (simp add: push_bit_eq_mult)
  finally show ?thesis .
qed

lemma unat_code3: "unat (code3 c p0 p1) = 4096 * (unat c mod 16) + 64 * (unat p0 mod 64) + unat p1 mod 64"
proof -
  let ?a = "unat c mod 16" and ?b = "unat p0 mod 64" and ?d = "unat p1 mod 64"
  have a: "unat (push_bit 12 (ucast (c AND 0x0F) :: 32 word)) = push_bit 12 ?a"
    by (subst unat_push_small) (simp_all add: unat_ucast_byte and0F)
  have b: "unat (push_bit 6 (ucast (p0 AND 0x3F) :: 32 word)) = push_bit 6 ?b"
    by (subst unat_push_small) (simp_all add: unat_ucast_byte and3F)
  have d: "unat (ucast (p1 AND 0x3F) :: 32 word) = ?d"
    by (simp add: unat_ucast_byte and3F)
  have "unat (code3 c p0 p1) = push_bit 12 ?a OR (push_bit 6 ?b OR ?d)"
    unfolding code3_def by (simp only: unsigned_or_eq a b d)
  also have "push_bit 6 ?b OR ?d = ?b * 2 ^ 6 + ?d" by (rule or_add_nat) simp
  also have "push_bit 12 ?a OR (?b * 2 ^ 6 + ?d) = ?a * 2 ^ 12 + (?b * 2 ^ 6 + ?d)"
  proof (rule or_add_nat)
    have "?b < 64" "?d < 64" by simp_all
    then show "?b * 2 ^ 6 + ?d < 2 ^ 12" by simp
  qed
  finally show ?thesis by simp
qed

lemma unat_code4: "unat (code4 c p0 p1 p2) =
    262144 * (unat c mod 8) + 4096 * (unat p0 mod 64) + 64 * (unat p1 mod 64) + unat p2 mod 64"
proof -
  let ?a = "unat c mod 8" and ?b = "unat p0 mod 64" and ?d = "unat p1 mod 64" and ?e = "unat p2 mod 64"
  have a: "unat (push_bit 18 (ucast (c AND 0x07) :: 32 word)) = push_bit 18 ?a"
    by (subst unat_push_small) (simp_all add: unat_ucast_byte and07)
  have b: "unat (push_bit 12 (ucast (p0 AND 0x3F) :: 32 word)) = push_bit 12 ?b"
    by (subst unat_push_small) (simp_all add: unat_ucast_byte and3F)
  have d: "unat (push_bit 6 (ucast (p1 AND 0x3F) :: 32 word)) = push_bit 6 ?d"
    by (subst unat_push_small) (simp_all add: unat_ucast_byte and3F)
  have e: "unat (ucast (p2 AND 0x3F) :: 32 word) = ?e"
    by (simp add: unat_ucast_byte and3F)
  have lt: "?b < 64" "?d < 64" "?e < 64" by simp_all
  have "unat (code4 c p0 p1 p2) = push_bit 18 ?a OR (push_bit 12 ?b OR (push_bit 6 ?d OR ?e))"
    unfolding code4_def by (simp only: unsigned_or_eq a b d e)
  also have "push_bit 6 ?d OR ?e = ?d * 2 ^ 6 + ?e" by (rule or_add_nat) simp
  also have "push_bit 12 ?b OR (?d * 2 ^ 6 + ?e) = ?b * 2 ^ 12 + (?d * 2 ^ 6 + ?e)"
    by (rule or_add_nat) (use lt in simp)
  also have "push_bit 18 ?a OR (?b * 2 ^ 12 + (?d * 2 ^ 6 + ?e)) = ?a * 2 ^ 18 + (?b * 2 ^ 12 + (?d * 2 ^ 6 + ?e))"
    by (rule or_add_nat) (use lt in simp)
  finally show ?thesis by simp
qed

lemma digits3:
  fixes cp :: nat
  assumes "cp < 65536"
  obtains a b d where "a = cp div 4096" "b = cp div 64 mod 64" "d = cp mod 64"
    "cp = 4096 * a + 64 * b + d" "a < 16" "b < 64" "d < 64"
proof -
  define q where "q = cp div 64"
  define a b d where "a = q div 64" and "b = q mod 64" and "d = cp mod 64"
  have 1: "cp = 64 * q + d" unfolding q_def d_def by simp
  have 2: "q = 64 * a + b" unfolding a_def b_def by simp
  have 3: "a = cp div 4096" unfolding a_def q_def by (simp add: div_mult2_eq[symmetric])
  have 4: "b < 64" "d < 64" unfolding b_def d_def by simp_all
  have 5: "cp = 4096 * a + 64 * b + d" using 1 2 by simp
  have 6: "a < 16" using 5 assms by simp
  show ?thesis using that[OF 3 _ _ 5 6 4] unfolding b_def d_def q_def by simp
qed
lemma digits4:
  fixes cp :: nat
  assumes "cp \<le> 1114111"
  obtains a b d e where "a = cp div 262144" "b = cp div 4096 mod 64" "d = cp div 64 mod 64" "e = cp mod 64"
    "cp = 262144 * a + 4096 * b + 64 * d + e" "a < 5" "b < 64" "d < 64" "e < 64"
proof -
  define q where "q = cp div 64"
  define r where "r = q div 64"
  define a b d e where "a = r div 64" and "b = r mod 64" and "d = q mod 64" and "e = cp mod 64"
  have 1: "cp = 64 * q + e" unfolding q_def e_def by simp
  have 2: "q = 64 * r + d" unfolding r_def d_def by simp
  have 7: "r = 64 * a + b" unfolding a_def b_def by simp
  have r: "r = cp div 4096" unfolding r_def q_def by (simp add: div_mult2_eq[symmetric])
  have 3: "a = cp div 262144" unfolding a_def r_def q_def by (simp add: div_mult2_eq[symmetric])
  have 4: "b < 64" "d < 64" "e < 64" unfolding b_def d_def e_def by simp_all
  have 5: "cp = 262144 * a + 4096 * b + 64 * d + e" using 1 2 7 by simp
  have 6: "a < 5" using 5 assms by simp
  have b: "b = cp div 4096 mod 64" unfolding b_def r ..
  show ?thesis using that[OF 3 b _ _ 5 6 4] unfolding d_def e_def q_def by simp
qed
lemma mod_lead: "a < 16 \<Longrightarrow> (224 + a) mod 16 = (a::nat)" "b < 64 \<Longrightarrow> (128 + b) mod 64 = (b::nat)"
  "a < 8 \<Longrightarrow> (240 + a) mod 8 = a"
proof -
  have "(224 + a) mod 16 = (16 * 14 + a) mod 16" by simp
  then show "a < 16 \<Longrightarrow> (224 + a) mod 16 = (a::nat)" by (simp only: mod_mult_self4) simp
  have "(128 + b) mod 64 = (64 * 2 + b) mod 64" by simp
  then show "b < 64 \<Longrightarrow> (128 + b) mod 64 = (b::nat)" by (simp only: mod_mult_self4) simp
  have "(240 + a) mod 8 = (8 * 30 + a) mod 8" by simp
  then show "a < 8 \<Longrightarrow> (240 + a) mod 8 = (a::nat)" by (simp only: mod_mult_self4) simp
qed

lemma unat_byte_of_nat: "n < 256 \<Longrightarrow> unat (of_nat n :: byte) = n"
  by (simp add: unat_of_nat)

lemma byte_eq_consts:
  "((c::byte) = 0xE0) = (unat c = 224)" "(c = 0xED) = (unat c = 237)"
  "(c = 0xF0) = (unat c = 240)" "(c = 0xF4) = (unat c = 244)"
  by (simp_all add: word_unat_eq_iff)

lemmas w2n = word_less_nat_alt word_le_nat_alt byte_eq_consts cont_iff unat_code3 unat_code4

lemma validate_enc1: "cp < 128 \<Longrightarrow> validateUTF8 (of_nat cp # bs) = validateUTF8 bs"
  by (simp add: w2n unat_byte_of_nat)

lemma validate_enc2:
  assumes "128 \<le> cp" "cp < 2048"
  shows "validateUTF8 (of_nat (192 + cp div 64) # of_nat (128 + cp mod 64) # bs) = validateUTF8 bs"
proof -
  define a d where "a = cp div 64" and "d = cp mod 64"
  define c p0 :: byte where "c = of_nat (192 + a)" and "p0 = of_nat (128 + d)"
  have cp: "cp = 64 * a + d" unfolding a_def d_def by simp
  have d: "d < 64" unfolding d_def by simp
  have a: "a < 32" "2 \<le> a" using assms cp d by simp_all
  have u: "unat c = 192 + a" "unat p0 = 128 + d"
    unfolding c_def p0_def using a d by (subst unat_byte_of_nat; simp)+
  have "validateUTF8 (c # p0 # bs) = validateUTF8 bs" using a d by (simp add: w2n u)
  then show ?thesis unfolding c_def p0_def a_def d_def .
qed

lemma validate_enc3:
  assumes "2048 \<le> cp" "cp < 65536" "\<not> (0xD800 \<le> cp \<and> cp \<le> 0xDFFF)"
  shows "validateUTF8 (of_nat (224 + cp div 4096) # of_nat (128 + cp div 64 mod 64) # of_nat (128 + cp mod 64) # bs) = validateUTF8 bs"
proof -
  obtain a b d where abd: "a = cp div 4096" "b = cp div 64 mod 64" "d = cp mod 64"
    and cp: "cp = 4096 * a + 64 * b + d" and bd: "a < 16" "b < 64" "d < 64"
    using digits3[OF assms(2)] by metis
  define c p0 p1 :: byte where "c = of_nat (224 + a)" and "p0 = of_nat (128 + b)" and "p1 = of_nat (128 + d)"
  have u: "unat c = 224 + a" "unat p0 = 128 + b"  "unat p1 = 128 + d"
    unfolding c_def p0_def p1_def using bd by (subst unat_byte_of_nat; simp)+
  have 1: "\<not> (a = 0 \<and> b < 32)" using assms(1) bd cp by auto
  have 2: "\<not> (a = 13 \<and> 31 < b)" using assms(3) bd cp by auto
  have 3: "\<not> (55296 \<le> 4096 * a + 64 * b + d \<and> 4096 * a + 64 * b + d \<le> 57343)" using assms(3) cp by simp
  have "validateUTF8 (c # p0 # p1 # bs) = validateUTF8 bs" using bd
    by (simp add: w2n u mod_lead 1 2 3)
  then show ?thesis unfolding c_def p0_def p1_def abd .
qed

lemma validate_enc4:
  assumes "65536 \<le> cp" "cp \<le> 0x10FFFF"
  shows "validateUTF8 (of_nat (240 + cp div 262144) # of_nat (128 + cp div 4096 mod 64) # of_nat (128 + cp div 64 mod 64) # of_nat (128 + cp mod 64) # bs) = validateUTF8 bs"
proof -
  have "cp \<le> 1114111" using assms(2) by simp
  from digits4[OF this]
  obtain a b d e where abd: "a = cp div 262144" "b = cp div 4096 mod 64" "d = cp div 64 mod 64" "e = cp mod 64"
    and cp: "cp = 262144 * a + 4096 * b + 64 * d + e" and bd: "a < 5" "b < 64" "d < 64" "e < 64"
    by metis
  define c p0 p1 p2 :: byte where "c = of_nat (240 + a)" and "p0 = of_nat (128 + b)" and "p1 = of_nat (128 + d)" and "p2 = of_nat (128 + e)"
  have u: "unat c = 240 + a" "unat p0 = 128 + b"  "unat p1 = 128 + d" "unat p2 = 128 + e"
    unfolding c_def p0_def p1_def p2_def using bd by (subst unat_byte_of_nat; simp)+
  have a8: "a < 8" using bd by simp
  have 1: "\<not> (a = 0 \<and> b < 16)" using assms(1) bd cp by auto
  have 2: "\<not> (a = 4 \<and> 15 < b)" using assms(2) bd cp by auto
  have 3: "\<not> (1114111 < 262144 * a + 4096 * b + 64 * d + e)" using assms(2) cp by simp
  have "validateUTF8 (c # p0 # p1 # p2 # bs) = validateUTF8 bs" using bd
    by (simp add: w2n u mod_lead a8 1 2 3)
  then show ?thesis unfolding c_def p0_def p1_def p2_def abd .
qed

lemma validate_encode:
  assumes "is_scalar_value cp" shows "validateUTF8 (utf8_encode cp @ bs) = validateUTF8 bs"
proof -
  consider "cp < 128" | "128 \<le> cp" "cp < 2048" | "2048 \<le> cp" "cp < 65536" | "65536 \<le> cp"
    by linarith
  then show ?thesis
  proof cases
    case 1 then show ?thesis unfolding utf8_encode_def using validate_enc1[of cp bs] by simp
  next
    case 2 then show ?thesis unfolding utf8_encode_def using validate_enc2[of cp bs]
      by (simp del: validateUTF8.simps of_nat_add of_nat_numeral)
  next
    case 3 then show ?thesis unfolding utf8_encode_def using validate_enc3[of cp bs] assms
      by (simp add: is_scalar_value_def del: validateUTF8.simps of_nat_add of_nat_numeral)
  next
    case 4 then show ?thesis unfolding utf8_encode_def using validate_enc4[of cp bs] assms
      by (simp add: is_scalar_value_def del: validateUTF8.simps of_nat_add of_nat_numeral)
  qed
qed

lemma well_formed_imp_validate: "well_formed_utf8 bs \<Longrightarrow> validateUTF8 bs"
proof -
  have "list_all is_scalar_value cps \<Longrightarrow> validateUTF8 (concat (map utf8_encode cps))" for cps
    by (induction cps) (simp_all add: validate_encode del: validateUTF8.simps(2))
  then show "well_formed_utf8 bs \<Longrightarrow> validateUTF8 bs"
    unfolding well_formed_utf8_def by blast
qed

lemma digits_of2: fixes a d :: nat assumes "d < 64"
  shows "(64 * a + d) div 64 = a" "(64 * a + d) mod 64 = d"
  using assms by simp_all

lemma digits_of3: fixes a b d :: nat assumes "b < 64" "d < 64"
  shows "(4096 * a + 64 * b + d) div 4096 = a" "(4096 * a + 64 * b + d) div 64 mod 64 = b"
    "(4096 * a + 64 * b + d) mod 64 = d" "(4096 * a + 64 * b + d) div 64 = 64 * a + b"
proof -
  let ?n = "4096 * a + 64 * b + d"
  have e: "?n = 64 * (64 * a + b) + d" by simp
  show q: "?n div 64 = 64 * a + b" by (simp only: e digits_of2[OF assms(2)])
  show "?n mod 64 = d" by (simp only: e digits_of2[OF assms(2)])
  show "?n div 64 mod 64 = b" by (simp only: q digits_of2[OF assms(1)])
  have "?n div 4096 = ?n div 64 div 64"
    by (simp add: div_mult2_eq[symmetric])
  then show "?n div 4096 = a" by (simp only: q digits_of2[OF assms(1)])
qed

lemma digits_of4: fixes a b d e :: nat assumes "b < 64" "d < 64" "e < 64"
  shows "(262144 * a + 4096 * b + 64 * d + e) div 262144 = a"
    "(262144 * a + 4096 * b + 64 * d + e) div 4096 mod 64 = b"
    "(262144 * a + 4096 * b + 64 * d + e) div 64 mod 64 = d"
    "(262144 * a + 4096 * b + 64 * d + e) mod 64 = e"
proof -
  let ?n = "262144 * a + 4096 * b + 64 * d + e"
  have e: "?n = 64 * (4096 * a + 64 * b + d) + e" by simp
  have q: "?n div 64 = 4096 * a + 64 * b + d" by (simp only: e digits_of2[OF assms(3)])
  show "?n mod 64 = e" by (simp only: e digits_of2[OF assms(3)])
  show "?n div 64 mod 64 = d" by (simp only: q digits_of3[OF assms(1,2)])
  have "?n div 4096 = ?n div 64 div 64" by (simp add: div_mult2_eq[symmetric])
  also have "\<dots> = 64 * a + b"
    by (simp only: q digits_of3(4)[OF assms(1,2)])
  finally have r: "?n div 4096 = 64 * a + b" .
  show "?n div 4096 mod 64 = b" by (simp only: r digits_of2[OF assms(1)])
  have "?n div 262144 = ?n div 4096 div 64" by (simp add: div_mult2_eq[symmetric])
  then show "?n div 262144 = a" by (simp only: r digits_of2[OF assms(1)])
qed

lemma dec1: assumes "(c::byte) < 0x80" shows "\<exists>cp. is_scalar_value cp \<and> utf8_encode cp = [c]"
proof -
  have "unat c < 128" using assms by (simp add: w2n)
  then have "is_scalar_value (unat c) \<and> utf8_encode (unat c) = [c]"
    by (simp add: is_scalar_value_def utf8_encode_def)
  then show ?thesis ..
qed

lemma dec2:
  assumes "0xC2 \<le> (c::byte)" "c \<le> 0xDF" "p0 AND 0xC0 = 0x80"
  shows "\<exists>cp. is_scalar_value cp \<and> utf8_encode cp = [c, p0]"
proof -
  define a d where "a = unat c - 192" and "d = unat p0 - 128"
  have u: "unat c = 192 + a" "unat p0 = 128 + d" "2 \<le> a" "a < 32" "d < 64"
    using assms unfolding a_def d_def by (auto simp add: w2n)
  let ?cp = "64 * a + d"
  have r: "128 \<le> ?cp" "?cp < 2048" using u by simp_all
  have b: "of_nat (192 + a) = c" "of_nat (128 + d) = p0"
    unfolding u(1,2)[symmetric] by simp_all
  have "utf8_encode ?cp = [c, p0]"
    unfolding utf8_encode_def using r b u(5)
    by (simp add: digits_of2[OF u(5)] del: of_nat_add of_nat_numeral)
  moreover have "is_scalar_value ?cp" using r by (simp add: is_scalar_value_def)
  ultimately show ?thesis by blast
qed

lemma dec3:
  assumes "0xE0 \<le> (c::byte)" "c \<le> 0xEF" "p0 AND 0xC0 = 0x80" "p1 AND 0xC0 = 0x80"
    "\<not> (c = 0xE0 \<and> p0 < 0xA0)" "\<not> (c = 0xED \<and> p0 > 0x9F)"
  shows "\<exists>cp. is_scalar_value cp \<and> utf8_encode cp = [c, p0, p1]"
proof -
  define a b d where "a = unat c - 224" and "b = unat p0 - 128" and "d = unat p1 - 128"
  have u: "unat c = 224 + a" "unat p0 = 128 + b" "unat p1 = 128 + d" 
    and bd: "a < 16" "b < 64" "d < 64"
    using assms(1-4) unfolding a_def b_def d_def by (auto simp add: w2n)
  have x: "a \<noteq> 0 \<or> 32 \<le> b" "a \<noteq> 13 \<or> b < 32"
    using assms(5,6) by (auto simp add: w2n u)
  let ?cp = "4096 * a + 64 * b + d"
  have r: "2048 \<le> ?cp" "?cp < 65536" using bd x by auto
  consider "a \<le> 12" | "a = 13" "b < 32" | "14 \<le> a" using x(2) by linarith
  then have r3: "\<not> (55296 \<le> ?cp \<and> ?cp \<le> 57343)" using bd by cases simp_all
  note r = r r3
  have w: "of_nat (224 + a) = c" "of_nat (128 + b) = p0" "of_nat (128 + d) = p1"
    unfolding u[symmetric] by simp_all
  have "utf8_encode ?cp = [c, p0, p1]"
    unfolding utf8_encode_def using r w bd
    by (simp add: digits_of3[OF bd(2,3)] del: of_nat_add of_nat_numeral)
  moreover have "is_scalar_value ?cp" using r by (simp add: is_scalar_value_def)
  ultimately show ?thesis by blast
qed

lemma dec4:
  assumes "0xF0 \<le> (c::byte)" "c \<le> 0xF4" "p0 AND 0xC0 = 0x80" "p1 AND 0xC0 = 0x80" "p2 AND 0xC0 = 0x80"
    "\<not> (c = 0xF0 \<and> p0 < 0x90)" "\<not> (c = 0xF4 \<and> p0 > 0x8F)"
  shows "\<exists>cp. is_scalar_value cp \<and> utf8_encode cp = [c, p0, p1, p2]"
proof -
  define a b d e where "a = unat c - 240" and "b = unat p0 - 128" and "d = unat p1 - 128" and "e = unat p2 - 128"
  have u: "unat c = 240 + a" "unat p0 = 128 + b" "unat p1 = 128 + d" "unat p2 = 128 + e"
    and bd: "a < 5" "b < 64" "d < 64" "e < 64"
    using assms(1-5) unfolding a_def b_def d_def e_def by (auto simp add: w2n)
  have x: "a \<noteq> 0 \<or> 16 \<le> b" "a \<noteq> 4 \<or> b < 16"
    using assms(6,7) by (auto simp add: w2n u)
  let ?cp = "262144 * a + 4096 * b + 64 * d + e"
  have r: "65536 \<le> ?cp" "?cp \<le> 1114111" using bd x by auto
  have w: "of_nat (240 + a) = c" "of_nat (128 + b) = p0" "of_nat (128 + d) = p1" "of_nat (128 + e) = p2"
    unfolding u[symmetric] by simp_all
  have "utf8_encode ?cp = [c, p0, p1, p2]"
    unfolding utf8_encode_def using r w bd
    by (simp add: digits_of4[OF bd(2,3,4)] del: of_nat_add of_nat_numeral)
  moreover have "is_scalar_value ?cp" using r by (simp add: is_scalar_value_def)
  ultimately show ?thesis by blast
qed

lemma wf_append:
  assumes "\<exists>cp. is_scalar_value cp \<and> utf8_encode cp = xs" "well_formed_utf8 bs"
  shows "well_formed_utf8 (xs @ bs)"
proof -
  obtain cp where cp: "is_scalar_value cp" "utf8_encode cp = xs" using assms(1) by blast
  obtain cps where cps: "list_all is_scalar_value cps" "bs = concat (map utf8_encode cps)"
    using assms(2) unfolding well_formed_utf8_def by blast
  have "list_all is_scalar_value (cp # cps) \<and> xs @ bs = concat (map utf8_encode (cp # cps))"
    using cp cps by simp
  then show ?thesis unfolding well_formed_utf8_def by blast
qed

lemma validate_step:
  assumes "validateUTF8 (c # p)"
  shows "\<exists>cp xs p'. is_scalar_value cp \<and> utf8_encode cp = xs \<and> c # p = xs @ p' \<and> validateUTF8 p' \<and> length p' \<le> length p"
proof -
  consider (one) "c < 0x80" 
    | (two) "\<not> c < 0x80" "0xC2 \<le> c \<and> c \<le> 0xDF"
    | (three) "\<not> c < 0x80" "\<not> (0xC2 \<le> c \<and> c \<le> 0xDF)" "0xE0 \<le> c \<and> c \<le> 0xEF"
    | (four) "\<not> c < 0x80" "\<not> (0xC2 \<le> c \<and> c \<le> 0xDF)" "\<not> (0xE0 \<le> c \<and> c \<le> 0xEF)" "0xF0 \<le> c \<and> c \<le> 0xF4"
    | (bad) "\<not> c < 0x80" "\<not> (0xC2 \<le> c \<and> c \<le> 0xDF)" "\<not> (0xE0 \<le> c \<and> c \<le> 0xEF)" "\<not> (0xF0 \<le> c \<and> c \<le> 0xF4)"
    by blast
  then show ?thesis
  proof cases
    case one
    then have "validateUTF8 p" using assms by simp
    then show ?thesis using dec1[OF one] by fastforce
  next
    case two
    have v: "(case p of [] \<Rightarrow> False | p0 # p' \<Rightarrow> if p0 AND 0xC0 \<noteq> 0x80 then False else validateUTF8 p')"
      using assms two by simp
    then obtain p0 p' where p: "p = p0 # p'" by (cases p) auto
    have c: "p0 AND 0xC0 = 0x80" and v': "validateUTF8 p'"
      using v unfolding p by (simp_all split: if_splits)
    show ?thesis using dec2[of c p0] two c v' unfolding p by fastforce
  next
    case three
    have v: "(case p of p0 # p1 # p' \<Rightarrow>
             if p0 AND 0xC0 \<noteq> 0x80 \<or> p1 AND 0xC0 \<noteq> 0x80 then False
             else if c = 0xE0 \<and> p0 < 0xA0 then False
             else if c = 0xED \<and> p0 > 0x9F then False
             else if 0xD800 \<le> code3 c p0 p1 \<and> code3 c p0 p1 \<le> 0xDFFF then False
             else validateUTF8 p'
         | _ \<Rightarrow> False)"
      using assms three by simp
    then obtain p0 p1 p' where p: "p = p0 # p1 # p'" by (auto split: list.splits)
    have c: "p0 AND 0xC0 = 0x80" "p1 AND 0xC0 = 0x80"
        "\<not> (c = 0xE0 \<and> p0 < 0xA0)" "\<not> (c = 0xED \<and> p0 > 0x9F)"
        and v': "validateUTF8 p'"
      using v unfolding p by (simp_all split: if_splits)
    show ?thesis using dec3[of c p0 p1] three c v' unfolding p by fastforce
  next
    case four
    have v: "(case p of
           p0 # p1 # p2 # p' \<Rightarrow>
             if p0 AND 0xC0 \<noteq> 0x80 \<or> p1 AND 0xC0 \<noteq> 0x80 \<or> p2 AND 0xC0 \<noteq> 0x80 then False
             else if c = 0xF0 \<and> p0 < 0x90 then False
             else if c = 0xF4 \<and> p0 > 0x8F then False
             else if code4 c p0 p1 p2 > 0x10FFFF then False
             else validateUTF8 p'
         | _ \<Rightarrow> False)"
      using assms four by simp
    then obtain p0 p1 p2 p' where p: "p = p0 # p1 # p2 # p'" by (auto split: list.splits)
    have c: "p0 AND 0xC0 = 0x80" "p1 AND 0xC0 = 0x80" "p2 AND 0xC0 = 0x80"
        "\<not> (c = 0xF0 \<and> p0 < 0x90)" "\<not> (c = 0xF4 \<and> p0 > 0x8F)"
        and v': "validateUTF8 p'"
      using v unfolding p by (simp_all split: if_splits)
    show ?thesis using dec4[of c p0 p1 p2] four c v' unfolding p by fastforce
  next
    case bad
    have "\<not> validateUTF8 (c # p)" by (simp only: validateUTF8.simps bad if_False) simp
    then show ?thesis using assms by simp
  qed
qed

lemma validate_imp_well_formed: "validateUTF8 bs \<Longrightarrow> well_formed_utf8 bs"
proof (induction "length bs" arbitrary: bs rule: less_induct)
  case less
  show ?case
  proof (cases bs)
    case Nil
    have "list_all is_scalar_value [] \<and> [] = concat (map utf8_encode [])" by simp
    then show ?thesis unfolding Nil well_formed_utf8_def by blast
  next
    case (Cons c p)
    obtain cp xs p' where s: "is_scalar_value cp" "utf8_encode cp = xs" "c # p = xs @ p'"
      "validateUTF8 p'" "length p' \<le> length p"
      using validate_step[of c p] less.prems Cons by blast
    have "well_formed_utf8 p'" using less.hyps[of p'] s(4,5) Cons by simp
    then have "well_formed_utf8 (xs @ p')" using wf_append s(1,2) by blast
    then show ?thesis using s(3) Cons by simp
  qed
qed


text \<open>
  Claim C10. \<open>validateUTF8\<close> returns true exactly on the well-formed UTF-8 byte
  sequences, that is on the concatenations of shortest-form encodings of Unicode scalar
  values: truncated sequences, bytes that are not continuation bytes where one is due,
  overlong forms, surrogates, code points above 0x10FFFF and the lead bytes 0x80..0xC1
  and 0xF5..0xFF are all rejected, and nothing else is. \<open>detectCharset\<close> is total and
  answers \<open>UTF-8\<close> exactly in that case and \<open>ISO-8859-1\<close> otherwise.
\<close>

theorem validateUTF8_exact:
  "(validateUTF8 bs \<longleftrightarrow> well_formed_utf8 bs) \<and>
   detectCharset bs = (if well_formed_utf8 bs then ''UTF-8'' else ''ISO-8859-1'')"
  using validate_imp_well_formed[of bs] well_formed_imp_validate[of bs]
  by (auto simp: detectCharset_def)

end
